theory Spec2Isabelle
  imports Main
begin

section \<open>The permissions panel of \<^verbatim>\<open>object_permissions/media/js/users.js\<close>\<close>

text \<open>
  The script wires the controls of a permissions panel with jQuery: it binds click
  handlers, opens popovers (qTip), sends asynchronous requests and patches the user list
  with the replies. The embedding below keeps the script's functions and their order of
  effects. What the script reads and writes is made a state, \<open>page\<close>, passed through
  every handler:
  \<^item> the descendants of the container \<^verbatim>\<open>#op_users\<close>, as a forest of elements;
  \<^item> the markup appended to the error region \<^verbatim>\<open>#errors\<close>;
  \<^item> the popovers (the elements of class \<^verbatim>\<open>qtip\<close>);
  \<^item> the requests in flight, each with the success callback the script registered;
  \<^item> the event bindings.
  The page is taken to satisfy the DOM contract of the panel: one container
  \<^verbatim>\<open>#op_users\<close>, one error region \<^verbatim>\<open>#errors\<close>, and the elements that the
  selectors of the script can match all inside the container. An uncaught exception ends
  the handler that raised it and leaves the page with the effects made before.
\<close>

subsection \<open>JavaScript values of a reply\<close>

text \<open>
  The payload handed to a success callback: a parsed JSON value, or the text of the
  reply as a string. An object is the list of its own properties in the order
  \<^verbatim>\<open>for (key in ...)\<close> enumerates them. Numbers are the integral ones.
\<close>

datatype jsval =
    JString string
  | JNumber int
  | JBoolean bool
  | JNull
  | JArray "jsval list"
  | JObject "(string \<times> jsval) list"

text \<open>\<^verbatim>\<open>typeof v\<close>\<close>

fun js_typeof :: "jsval \<Rightarrow> string" where
  "js_typeof (JString s) = ''string''"
| "js_typeof (JNumber n) = ''number''"
| "js_typeof (JBoolean b) = ''boolean''"
| "js_typeof JNull = ''object''"
| "js_typeof (JArray xs) = ''object''"
| "js_typeof (JObject kvs) = ''object''"

fun nat_to_string :: "nat \<Rightarrow> string" where
  "nat_to_string n =
     (if n < 10 then [''0123456789'' ! n]
      else nat_to_string (n div 10) @ [''0123456789'' ! (n mod 10)])"

definition int_to_string :: "int \<Rightarrow> string" where
  "int_to_string i = (if i < 0 then ''-'' @ nat_to_string (nat (- i)) else nat_to_string (nat i))"

fun join_comma :: "string list \<Rightarrow> string" where
  "join_comma [] = []"
| "join_comma [s] = s"
| "join_comma (s # t # ss) = s @ '','' @ join_comma (t # ss)"

text \<open>
  The conversion to a string that \<^verbatim>\<open>"<li>" + v + "</li>"\<close> applies to \<open>v\<close>: an array
  joins its elements with commas, \<^verbatim>\<open>null\<close> elements being empty.
\<close>

fun js_to_string :: "jsval \<Rightarrow> string" where
  "js_to_string (JString s) = s"
| "js_to_string (JNumber n) = int_to_string n"
| "js_to_string (JBoolean b) = (if b then ''true'' else ''false'')"
| "js_to_string JNull = ''null''"
| "js_to_string (JArray xs) =
     join_comma (map (\<lambda>v. if v = JNull then [] else js_to_string v) xs)"
| "js_to_string (JObject kvs) = ''[object Object]''"

text \<open>
  The values \<^verbatim>\<open>v[key]\<close> that \<^verbatim>\<open>for (var key in v)\<close> visits, in order: the properties
  of an object, the elements of an array, the characters of a string, and nothing for a
  number, a boolean or \<^verbatim>\<open>null\<close>.
\<close>

fun js_for_in :: "jsval \<Rightarrow> jsval list" where
  "js_for_in (JObject kvs) = map snd kvs"
| "js_for_in (JArray xs) = xs"
| "js_for_in (JString s) = map (\<lambda>c. JString [c]) s"
| "js_for_in (JNumber n) = []"
| "js_for_in (JBoolean b) = []"
| "js_for_in JNull = []"

text \<open>String concatenation with a value that may be \<^verbatim>\<open>undefined\<close> or \<^verbatim>\<open>null\<close>.\<close>

definition or_undefined :: "string option \<Rightarrow> string" where
  "or_undefined v = (case v of None \<Rightarrow> ''undefined'' | Some s \<Rightarrow> s)"

definition or_null :: "string option \<Rightarrow> string" where
  "or_null v = (case v of None \<Rightarrow> ''null'' | Some s \<Rightarrow> s)"

subsection \<open>Elements\<close>

text \<open>
  An element has an optional \<^verbatim>\<open>id\<close> attribute, its classes, the markup that
  \<^verbatim>\<open>.html()\<close> returns for it, and its child elements.
\<close>

datatype element =
  Element (elem_id: "string option") (elem_classes: "string list") (elem_html: string)
    (children: "element list")

text \<open>The property \<^verbatim>\<open>el.id\<close>: the empty string when the attribute is absent.\<close>

definition id_property :: "element \<Rightarrow> string" where
  "id_property e = (case elem_id e of None \<Rightarrow> [] | Some s \<Rightarrow> s)"

definition with_id :: "string \<Rightarrow> element \<Rightarrow> bool" where
  "with_id s e = (elem_id e = Some s)"

definition has_classes :: "string list \<Rightarrow> element \<Rightarrow> bool" where
  "has_classes cs e = list_all (\<lambda>c. c \<in> set (elem_classes e)) cs"

text \<open>
  \<^verbatim>\<open>html.attr('id')\<close>: the identifier of the first element of the set,
  \<^verbatim>\<open>undefined\<close> when the set is empty or the attribute is absent.
\<close>

fun attr_id :: "element list \<Rightarrow> string option" where
  "attr_id [] = None"
| "attr_id (e # es) = elem_id e"

text \<open>
  \<^verbatim>\<open>row.children('.name').html()\<close>: the markup of the first child of class
  \<^verbatim>\<open>name\<close>, \<^verbatim>\<open>null\<close> when there is none.
\<close>

definition name_html :: "element \<Rightarrow> string option" where
  "name_html row =
     (case filter (\<lambda>e. ''name'' \<in> set (elem_classes e)) (children row) of
        [] \<Rightarrow> None
      | e # es \<Rightarrow> Some (elem_html e))"

subsection \<open>Sets of matched elements\<close>

text \<open>
  The elements of the forest, at any depth, that satisfy \<open>P\<close>: how many they are
  (\<^verbatim>\<open>.length\<close>), the forest without them and their subtrees (\<^verbatim>\<open>.remove()\<close>),
  and the forest with each of them replaced, where it stands, by the elements of
  \<open>html\<close> (\<^verbatim>\<open>.replaceWith(html)\<close>).
\<close>

function count_where :: "(element \<Rightarrow> bool) \<Rightarrow> element list \<Rightarrow> nat" where
  "count_where P [] = 0"
| "count_where P (Element i c h ch # es) =
     (if P (Element i c h ch) then 1 else 0) + count_where P ch + count_where P es"
  by pat_completeness auto
termination
  by (relation "measure (\<lambda>(P, es). size_list size es)") auto

function remove_where :: "(element \<Rightarrow> bool) \<Rightarrow> element list \<Rightarrow> element list" where
  "remove_where P [] = []"
| "remove_where P (Element i c h ch # es) =
     (if P (Element i c h ch) then remove_where P es
      else Element i c h (remove_where P ch) # remove_where P es)"
  by pat_completeness auto
termination
  by (relation "measure (\<lambda>(P, es). size_list size es)") auto

function replace_where ::
  "(element \<Rightarrow> bool) \<Rightarrow> element list \<Rightarrow> element list \<Rightarrow> element list" where
  "replace_where P html [] = []"
| "replace_where P html (Element i c h ch # es) =
     (if P (Element i c h ch) then html @ replace_where P html es
      else Element i c h (replace_where P html ch) # replace_where P html es)"
  by pat_completeness auto
termination
  by (relation "measure (\<lambda>(P, html, es). size_list size es)") auto

text \<open>
  \<^verbatim>\<open>getElementById(s)\<close>: the first element, in document order, whose identifier is
  \<open>s\<close>. \<open>take_first_by_id\<close> gives that element and the forest without it,
  \<open>replace_first_by_id\<close> the forest with \<open>html\<close> in its place; \<open>None\<close> when no
  element has the identifier.
\<close>

function take_first_by_id :: "string \<Rightarrow> element list \<Rightarrow> (element \<times> element list) option" where
  "take_first_by_id s [] = None"
| "take_first_by_id s (Element i c h ch # es) =
     (if i = Some s then Some (Element i c h ch, es)
      else (case take_first_by_id s ch of
              Some (e, ch') \<Rightarrow> Some (e, Element i c h ch' # es)
            | None \<Rightarrow>
               (case take_first_by_id s es of
                  Some (e, es') \<Rightarrow> Some (e, Element i c h ch # es')
                | None \<Rightarrow> None)))"
  by pat_completeness auto
termination
  by (relation "measure (\<lambda>(s, es). size_list size es)") auto

function replace_first_by_id ::
  "string \<Rightarrow> element list \<Rightarrow> element list \<Rightarrow> element list option" where
  "replace_first_by_id s html [] = None"
| "replace_first_by_id s html (Element i c h ch # es) =
     (if i = Some s then Some (html @ es)
      else (case replace_first_by_id s html ch of
              Some ch' \<Rightarrow> Some (Element i c h ch' # es)
            | None \<Rightarrow>
               (case replace_first_by_id s html es of
                  Some es' \<Rightarrow> Some (Element i c h ch # es')
                | None \<Rightarrow> None)))"
  by pat_completeness auto
termination
  by (relation "measure (\<lambda>(s, html, es). size_list size es)") auto

text \<open>
  The elements at the positions that \<open>m\<close> holds of. A position is the path of child
  indices from the roots of the forest; \<open>pre\<close> is the path of the parent and \<open>k\<close> the
  index of the first element of the list.
\<close>

function count_paths :: "(nat list \<Rightarrow> bool) \<Rightarrow> nat list \<Rightarrow> nat \<Rightarrow> element list \<Rightarrow> nat" where
  "count_paths m pre k [] = 0"
| "count_paths m pre k (Element i c h ch # es) =
     (if m (pre @ [k]) then 1 else 0) + count_paths m (pre @ [k]) 0 ch
       + count_paths m pre (Suc k) es"
  by pat_completeness auto
termination
  by (relation "measure (\<lambda>(m, pre, k, es). size_list size es)") auto

function remove_paths ::
  "(nat list \<Rightarrow> bool) \<Rightarrow> nat list \<Rightarrow> nat \<Rightarrow> element list \<Rightarrow> element list" where
  "remove_paths m pre k [] = []"
| "remove_paths m pre k (Element i c h ch # es) =
     (if m (pre @ [k]) then remove_paths m pre (Suc k) es
      else Element i c h (remove_paths m (pre @ [k]) 0 ch) # remove_paths m pre (Suc k) es)"
  by pat_completeness auto
termination
  by (relation "measure (\<lambda>(m, pre, k, es). size_list size es)") auto

function replace_paths ::
  "(nat list \<Rightarrow> bool) \<Rightarrow> element list \<Rightarrow> nat list \<Rightarrow> nat \<Rightarrow> element list \<Rightarrow> element list"
  where
  "replace_paths m html pre k [] = []"
| "replace_paths m html pre k (Element i c h ch # es) =
     (if m (pre @ [k]) then html @ replace_paths m html pre (Suc k) es
      else Element i c h (replace_paths m html (pre @ [k]) 0 ch)
             # replace_paths m html pre (Suc k) es)"
  by pat_completeness auto
termination
  by (relation "measure (\<lambda>(m, html, pre, k, es). size_list size es)") auto

text \<open>
  What a selector selects in a forest: every element that satisfies a condition; or
  the first element with an identifier, when it satisfies a condition; or the elements
  at given positions.
\<close>

datatype selection =
    Every "element \<Rightarrow> bool"
  | First string "element \<Rightarrow> bool"
  | Paths "nat list \<Rightarrow> bool"

fun sel_length :: "selection \<Rightarrow> element list \<Rightarrow> nat" where
  "sel_length (Every P) doc = count_where P doc"
| "sel_length (First s Q) doc =
     (case take_first_by_id s doc of
        None \<Rightarrow> 0
      | Some (e, rest) \<Rightarrow> if Q e then 1 else 0)"
| "sel_length (Paths m) doc = count_paths m [] 0 doc"

fun sel_remove :: "selection \<Rightarrow> element list \<Rightarrow> element list" where
  "sel_remove (Every P) doc = remove_where P doc"
| "sel_remove (First s Q) doc =
     (case take_first_by_id s doc of
        None \<Rightarrow> doc
      | Some (e, rest) \<Rightarrow> if Q e then rest else doc)"
| "sel_remove (Paths m) doc = remove_paths m [] 0 doc"

fun sel_replaceWith :: "selection \<Rightarrow> element list \<Rightarrow> element list \<Rightarrow> element list" where
  "sel_replaceWith (Every P) html doc = replace_where P html doc"
| "sel_replaceWith (First s Q) html doc =
     (case take_first_by_id s doc of
        None \<Rightarrow> doc
      | Some (e, rest) \<Rightarrow>
          if Q e then (case replace_first_by_id s html doc of None \<Rightarrow> doc | Some doc' \<Rightarrow> doc')
          else doc)"
| "sel_replaceWith (Paths m) html doc = replace_paths m html [] 0 doc"

subsection \<open>Selectors built from strings\<close>

text \<open>
  The script builds its selectors by concatenation: \<^verbatim>\<open>"#user_" + id\<close>,
  \<^verbatim>\<open>"#op_users #" + responseText\<close>. What the text after the last \<^verbatim>\<open>#\<close> means
  depends on its characters. jQuery's own notion of an identifier is a non-empty word of
  letters, digits, \<^verbatim>\<open>_\<close> and \<^verbatim>\<open>-\<close>; a CSS identifier moreover starts with a letter
  or \<^verbatim>\<open>_\<close>.
\<close>

definition letter :: "char \<Rightarrow> bool" where
  "letter c = (c \<in> set ''abcdefghijklmnopqrstuvwxyzABCDEFGHIJKLMNOPQRSTUVWXYZ'')"

definition digit :: "char \<Rightarrow> bool" where
  "digit c = (c \<in> set ''0123456789'')"

definition ident_char :: "char \<Rightarrow> bool" where
  "ident_char c = (letter c \<or> digit c \<or> c = CHR ''_'' \<or> c = CHR ''-'')"

definition ident :: "string \<Rightarrow> bool" where
  "ident s = (s \<noteq> [] \<and> list_all ident_char s)"

definition css_ident :: "string \<Rightarrow> bool" where
  "css_ident s =
     (case s of [] \<Rightarrow> False | c # cs \<Rightarrow> (letter c \<or> c = CHR ''_'') \<and> list_all ident_char cs)"

definition digit_ident :: "string \<Rightarrow> bool" where
  "digit_ident s = (case s of [] \<Rightarrow> False | c # cs \<Rightarrow> digit c \<and> list_all ident_char cs)"

text \<open>The parts of a text between its dots.\<close>

fun split_dot :: "string \<Rightarrow> string list" where
  "split_dot [] = [[]]"
| "split_dot (c # cs) =
     (if c = CHR ''.'' then [] # split_dot cs
      else (case split_dot cs of [] \<Rightarrow> [[c]] | p # ps \<Rightarrow> (c # p) # ps))"

text \<open>
  The rest of jQuery that the script calls with a value of the reply. \<open>jq_build\<close> is
  \<^verbatim>\<open>$(responseText)\<close>, the elements built from the markup of the reply. \<open>jq_find\<close> is
  the selector engine on the selectors that are not of the forms below: given the
  selector and the forest it yields the positions of the elements matched, or \<open>None\<close>
  when it throws a syntax error.
\<close>

record jquery =
  jq_build :: "jsval \<Rightarrow> element list"
  jq_find :: "string \<Rightarrow> element list \<Rightarrow> (nat list \<Rightarrow> bool) option"

text \<open>
  The selection of a selector that ends in \<^verbatim>\<open>#\<close> followed by \<open>t\<close>, in a forest all of
  whose elements satisfy what stands before in the selector. \<open>None\<close>: the engine throws.
  \<^item> With nothing after the \<^verbatim>\<open>#\<close> the selector is not an expression and the engine throws.
  \<^item> When \<open>t\<close> is a CSS identifier, or CSS identifiers joined by dots (an identifier and
    classes), the selector is valid CSS and \<^verbatim>\<open>querySelectorAll\<close> yields every element with
    the identifier and the classes.
  \<^item> When the parts are identifiers of which some starts with a digit, the selector is not
    valid CSS; the engine then looks the identifier up with \<^verbatim>\<open>getElementById\<close> and
    keeps the element if it has the classes.
  \<^item> Any other text is left to \<open>jq_find\<close>.
\<close>

definition hash_select ::
  "jquery \<Rightarrow> string \<Rightarrow> string \<Rightarrow> element list \<Rightarrow> selection option" where
  "hash_select jq selector t doc =
     (let parts = split_dot t
      in if t = [] then None
         else if list_all css_ident parts then
           Some (Every (\<lambda>e. with_id (hd parts) e \<and> has_classes (tl parts) e))
         else if list_all (\<lambda>p. css_ident p \<or> digit_ident p) parts then
           Some (First (hd parts) (has_classes (tl parts)))
         else map_option Paths (jq_find jq selector doc))"

text \<open>\<^verbatim>\<open>$("#op_users #" + t)\<close>, in the forest of the descendants of the container.\<close>

definition select_in_op_users :: "jquery \<Rightarrow> string \<Rightarrow> element list \<Rightarrow> selection option" where
  "select_in_op_users jq t doc = hash_select jq (''#op_users #'' @ t) t doc"

text \<open>
  \<^verbatim>\<open>$("#" + t)\<close>: a selector that is \<^verbatim>\<open>#\<close> and one identifier of jQuery's is looked up
  with \<^verbatim>\<open>getElementById\<close>; any other goes to the engine.
\<close>

definition select_id :: "jquery \<Rightarrow> string \<Rightarrow> element list \<Rightarrow> selection option" where
  "select_id jq t doc =
     (if ident t then Some (First t (\<lambda>e. True))
      else hash_select jq (''#'' @ t) t doc)"

subsection \<open>The state of the page\<close>

text \<open>
  A popover is created by \<^verbatim>\<open>$(this).qtip({content: {url: ..., title: {text: ...}}, show:
  {when: false, ready: true}, ...})\<close> on the clicked control; \<open>ready: true\<close> shows it at
  once. Its \<^verbatim>\<open>onShow\<close> callback focuses the first field of the form it holds and binds
  \<open>object_permissions_form_submit\<close> below to that form.
\<close>

datatype control = AddUserControl | PermissionsLink

record popover =
  qtip_target :: control
  qtip_url :: string
  qtip_title :: string
  qtip_visible :: bool

text \<open>The success callbacks the script registers; a delete callback closes over the variable \<^verbatim>\<open>id\<close>.\<close>

datatype callback =
    DeleteUserReply string
  | DeleteGroupReply string
  | UpdateUserPermissions

record request =
  req_url :: string
  req_data :: "(string \<times> string) list"
  req_data_type :: "string option"
  req_success :: callback

text \<open>The functions the script binds to events, and handlers bound by anything else.\<close>

datatype handler =
    AddUserClick
  | DeleteUserClick
  | DeleteGroupClick
  | PermissionsClick
  | Foreign nat

text \<open>
  A binding is made on the elements a selector matches (\<^verbatim>\<open>.bind\<close>, \<^verbatim>\<open>.click\<close>) or
  delegated for the selector (\<^verbatim>\<open>.live\<close>). The table keeps the selector through which
  each handler was attached.
\<close>

datatype attachment = Bound | Live

record binding =
  b_selector :: string
  b_attachment :: attachment
  b_event :: string
  b_handler :: handler

record form =
  form_action :: string
  form_fields :: "(string \<times> string) list"

record page =
  user_url :: string
  obj_id :: string
  op_users :: "element list"
  errors :: "string list"
  qtips :: "popover list"
  requests :: "request list"
  bindings :: "binding list"

subsection \<open>jQuery and qTip calls\<close>

text \<open>\<^verbatim>\<open>$(sel).unbind()\<close>: every handler bound on the elements is removed.\<close>

definition unbind :: "string \<Rightarrow> page \<Rightarrow> page" where
  "unbind sel p =
     p\<lparr>bindings := filter (\<lambda>b. \<not> (b_selector b = sel \<and> b_attachment b = Bound)) (bindings p)\<rparr>"

text \<open>\<^verbatim>\<open>$(sel).die()\<close>: every handler attached with \<^verbatim>\<open>.live\<close> for the selector is removed.\<close>

definition die :: "string \<Rightarrow> page \<Rightarrow> page" where
  "die sel p =
     p\<lparr>bindings := filter (\<lambda>b. \<not> (b_selector b = sel \<and> b_attachment b = Live)) (bindings p)\<rparr>"

text \<open>\<^verbatim>\<open>$(sel).click(fn)\<close>\<close>

definition click :: "string \<Rightarrow> handler \<Rightarrow> page \<Rightarrow> page" where
  "click sel fn p =
     p\<lparr>bindings := bindings p @
        [\<lparr>b_selector = sel, b_attachment = Bound, b_event = ''click'', b_handler = fn\<rparr>]\<rparr>"

text \<open>\<^verbatim>\<open>$(sel).live(ev, fn)\<close>\<close>

definition live :: "string \<Rightarrow> string \<Rightarrow> handler \<Rightarrow> page \<Rightarrow> page" where
  "live sel ev fn p =
     p\<lparr>bindings := bindings p @
        [\<lparr>b_selector = sel, b_attachment = Live, b_event = ev, b_handler = fn\<rparr>]\<rparr>"

text \<open>
  The handlers that run, in order, when event \<open>ev\<close> reaches a control matched by \<open>sel\<close>.
\<close>

definition fired :: "string \<Rightarrow> string \<Rightarrow> page \<Rightarrow> handler list" where
  "fired sel ev p =
     map b_handler (filter (\<lambda>b. b_selector b = sel \<and> b_event b = ev) (bindings p))"

text \<open>\<^verbatim>\<open>$('.qtip').qtip('destroy')\<close>\<close>

definition qtip_destroy :: "page \<Rightarrow> page" where
  "qtip_destroy p = p\<lparr>qtips := []\<rparr>"

text \<open>\<^verbatim>\<open>$('.qtip').qtip('hide')\<close>\<close>

definition qtip_hide :: "page \<Rightarrow> page" where
  "qtip_hide p = p\<lparr>qtips := map (\<lambda>q. q\<lparr>qtip_visible := False\<rparr>) (qtips p)\<rparr>"

text \<open>\<^verbatim>\<open>$(this).qtip({...})\<close>\<close>

definition qtip :: "control \<Rightarrow> string \<Rightarrow> string \<Rightarrow> page \<Rightarrow> page" where
  "qtip this url title p =
     p\<lparr>qtips := qtips p @
        [\<lparr>qtip_target = this, qtip_url = url, qtip_title = title, qtip_visible = True\<rparr>]\<rparr>"

text \<open>\<^verbatim>\<open>$.post(url, data, success, "json")\<close>: the request is sent, the callback waits.\<close>

definition post :: "string \<Rightarrow> (string \<times> string) list \<Rightarrow> callback \<Rightarrow> page \<Rightarrow> page" where
  "post url data success p =
     p\<lparr>requests := requests p @
        [\<lparr>req_url = url, req_data = data, req_data_type = Some ''json'',
          req_success = success\<rparr>]\<rparr>"

text \<open>\<^verbatim>\<open>$(form).ajaxSubmit({success: ...})\<close>: the fields go to the form's action.\<close>

definition ajaxSubmit :: "form \<Rightarrow> callback \<Rightarrow> page \<Rightarrow> page" where
  "ajaxSubmit f success p =
     p\<lparr>requests := requests p @
        [\<lparr>req_url = form_action f, req_data = form_fields f, req_data_type = None,
          req_success = success\<rparr>]\<rparr>"

subsection \<open>The script\<close>

text \<open>The function given to \<^verbatim>\<open>$(document).ready\<close>: lines 10 to 14, then the bindings.\<close>

definition ready :: "page \<Rightarrow> page" where
  "ready p =
     (let p = unbind ''#add_user'' p;
          p = die ''.object_permissions_form .submit'' p;
          p = die ''.user .delete'' p;
          p = die ''.group .delete'' p;
          p = die ''.permissions'' p;
          p = click ''#add_user'' AddUserClick p;
          p = live ''.user .delete'' ''click'' DeleteUserClick p;
          p = live ''.group .delete'' ''click'' DeleteGroupClick p;
          p = live ''.permissions'' ''click'' PermissionsClick p
      in p)"

text \<open>Add user button.\<close>

definition add_user_click :: "page \<Rightarrow> page" where
  "add_user_click p =
     (let p = qtip_destroy p
      in qtip AddUserControl (user_url p) ''Add User: '' p)"

text \<open>
  The submit handler that \<^verbatim>\<open>bind_user_perm_form\<close> binds to the form:
  \<^verbatim>\<open>$("#errors").empty()\<close>, then the asynchronous submission.
\<close>

definition object_permissions_form_submit :: "form \<Rightarrow> page \<Rightarrow> page" where
  "object_permissions_form_submit this p =
     (let p = p\<lparr>errors := []\<rparr>
      in ajaxSubmit this UpdateUserPermissions p)"

text \<open>
  Delete user button. \<open>row\<close> is \<^verbatim>\<open>this.parentNode.parentNode\<close>, and \<open>confirm\<close> gives the
  answer of the user to the prompt that shows a message.
\<close>

definition delete_user_click :: "(string \<Rightarrow> bool) \<Rightarrow> element \<Rightarrow> page \<Rightarrow> page" where
  "delete_user_click confirm row p =
     (let name = name_html row
      in if confirm (''Remove this user: '' @ or_null name) then
           (let p = qtip_destroy p;
                id' = drop 5 (id_property row);
                data = [(''user'', id'), (''obj'', obj_id p)]
            in post (user_url p) data (DeleteUserReply id') p)
         else p)"

text \<open>
  The callback of the request of \<open>delete_user_click\<close>. When the selector engine
  throws, the callback ends there, with the page as it is.
\<close>

definition delete_user_reply :: "jquery \<Rightarrow> string \<Rightarrow> jsval \<Rightarrow> page \<Rightarrow> page" where
  "delete_user_reply jq id' code p =
     (let type = js_typeof code
      in if type = ''string'' then
           (case select_id jq (''user_'' @ id') (op_users p) of
              None \<Rightarrow> p
            | Some sel \<Rightarrow> p\<lparr>op_users := sel_remove sel (op_users p)\<rparr>)
         else p)"

text \<open>Delete group button.\<close>

definition delete_group_click :: "(string \<Rightarrow> bool) \<Rightarrow> element \<Rightarrow> page \<Rightarrow> page" where
  "delete_group_click confirm row p =
     (let name = name_html row
      in if confirm (''Remove this group: '' @ or_null name) then
           (let id' = drop 6 (id_property row);
                data = [(''group'', id'), (''obj'', obj_id p)]
            in post (user_url p) data (DeleteGroupReply id') p)
         else p)"

definition delete_group_reply :: "jquery \<Rightarrow> string \<Rightarrow> jsval \<Rightarrow> page \<Rightarrow> page" where
  "delete_group_reply jq id' code p =
     (let type = js_typeof code
      in if type = ''string'' then
           (case select_id jq (''group_'' @ id') (op_users p) of
              None \<Rightarrow> p
            | Some sel \<Rightarrow> p\<lparr>op_users := sel_remove sel (op_users p)\<rparr>)
         else p)"

text \<open>Update permission button; \<open>href\<close> is \<^verbatim>\<open>this.href\<close>.\<close>

definition permissions_click :: "string \<Rightarrow> page \<Rightarrow> page" where
  "permissions_click href p =
     (let p = qtip_destroy p
      in qtip PermissionsLink href ''Permissions: '' p)"

text \<open>
  \<^verbatim>\<open>update_user_permissions(responseText, statusText, xhr, $form)\<close>. \<open>content_type\<close> is
  \<^verbatim>\<open>xhr.getResponseHeader('Content-Type')\<close>, \<open>None\<close> for \<^verbatim>\<open>null\<close>. When the selector
  engine throws, the function ends there, with the effects made before.
\<close>

definition update_user_permissions ::
  "jquery \<Rightarrow> jsval \<Rightarrow> string option \<Rightarrow> page \<Rightarrow> page" where
  "update_user_permissions jq responseText content_type p =
     (if content_type = Some ''application/json'' then
        (let type = js_typeof responseText
         in if type = ''string'' then
              (let p = qtip_hide p
               in case select_in_op_users jq (js_to_string responseText) (op_users p) of
                    None \<Rightarrow> p
                  | Some sel \<Rightarrow> p\<lparr>op_users := sel_remove sel (op_users p)\<rparr>)
            else
              p\<lparr>errors := errors p @
                 map (\<lambda>v. ''<li>'' @ js_to_string v @ ''</li>'') (js_for_in responseText)\<rparr>)
      else
        (let p = qtip_hide p;
             html = jq_build jq responseText;
             id' = or_undefined (attr_id html)
         in case select_in_op_users jq id' (op_users p) of
              None \<Rightarrow> p
            | Some row \<Rightarrow>
                if sel_length row (op_users p) = 1 then
                  p\<lparr>op_users := sel_replaceWith row html (op_users p)\<rparr>
                else
                  p\<lparr>op_users := op_users p @ html\<rparr>))"

subsection \<open>Replies\<close>

text \<open>
  A request ends with a reply that jQuery accepts, whose payload and \<^verbatim>\<open>Content-Type\<close>
  header go to the success callback, or it fails (no connection, an error status, a
  payload that does not parse): the script registers no callback for that.
\<close>

datatype reply = Failure | Success jsval "string option"

fun run_callback :: "jquery \<Rightarrow> callback \<Rightarrow> jsval \<Rightarrow> string option \<Rightarrow> page \<Rightarrow> page" where
  "run_callback jq (DeleteUserReply id') v ct p = delete_user_reply jq id' v p"
| "run_callback jq (DeleteGroupReply id') v ct p = delete_group_reply jq id' v p"
| "run_callback jq UpdateUserPermissions v ct p = update_user_permissions jq v ct p"

text \<open>The \<open>k\<close>-th request in flight ends with reply \<open>r\<close>.\<close>

definition deliver :: "jquery \<Rightarrow> nat \<Rightarrow> reply \<Rightarrow> page \<Rightarrow> page" where
  "deliver jq k r p =
     (if k < length (requests p) then
        (let req = requests p ! k;
             p = p\<lparr>requests := take k (requests p) @ drop (Suc k) (requests p)\<rparr>
         in case r of
              Failure \<Rightarrow> p
            | Success v ct \<Rightarrow> run_callback jq (req_success req) v ct p)
      else p)"

text \<open>The operations that open a popover, and a sequence of them.\<close>

datatype open_popover = AddUser | EditPermissions string

fun open_popover_click :: "open_popover \<Rightarrow> page \<Rightarrow> page" where
  "open_popover_click AddUser p = add_user_click p"
| "open_popover_click (EditPermissions href) p = permissions_click href p"

fun open_popovers :: "open_popover list \<Rightarrow> page \<Rightarrow> page" where
  "open_popovers [] p = p"
| "open_popovers (x # xs) p = open_popovers xs (open_popover_click x p)"

text \<open>The operations that send a request.\<close>

datatype request_operation =
    DeleteUser element
  | DeleteGroup element
  | SubmitForm form

fun send_request :: "(string \<Rightarrow> bool) \<Rightarrow> request_operation \<Rightarrow> page \<Rightarrow> page" where
  "send_request confirm (DeleteUser row) p = delete_user_click confirm row p"
| "send_request confirm (DeleteGroup row) p = delete_group_click confirm row p"
| "send_request confirm (SubmitForm f) p = object_permissions_form_submit f p"

text \<open>
  A page on which the script has bound nothing yet: every handler is of another origin.
\<close>

fun foreign :: "handler \<Rightarrow> bool" where
  "foreign (Foreign n) = True"
| "foreign h = False"

definition script_free :: "page \<Rightarrow> bool" where
  "script_free p = list_all (\<lambda>b. foreign (b_handler b)) (bindings p)"

subsection \<open>A sample page\<close>

text \<open>
  A row holds its name, a cell with the delete control, and the permissions link.
\<close>

definition user_row :: "string \<Rightarrow> string \<Rightarrow> element" where
  "user_row i name =
     Element (Some (''user_'' @ i)) [''user''] []
       [Element None [''name''] name [],
        Element None [] [] [Element None [''delete''] [] []],
        Element None [''permissions''] [] []]"

definition group_row :: "string \<Rightarrow> string \<Rightarrow> element" where
  "group_row i name =
     Element (Some (''group_'' @ i)) [''group''] []
       [Element None [''name''] name [],
        Element None [] [] [Element None [''delete''] [] []],
        Element None [''permissions''] [] []]"

definition sample_page :: page where
  "sample_page =
     \<lparr>user_url = ''/object/1/users/'', obj_id = ''1'',
      op_users = [user_row ''7'' ''alice'', user_row ''42'' ''bob'', group_row ''13'' ''staff''],
      errors = [],
      qtips = [\<lparr>qtip_target = PermissionsLink, qtip_url = ''/object/1/user/42/'',
                qtip_title = ''Permissions: '', qtip_visible = True\<rparr>],
      requests = [], bindings = []\<rparr>"

text \<open>
  A page with two rows of one identifier, a page with a row whose identifier has a dot,
  and a page with a row of class \<^verbatim>\<open>x\<close>.
\<close>

definition twin_page :: page where
  "twin_page = sample_page\<lparr>op_users := [user_row ''7'' ''alice'', user_row ''7'' ''alice'']\<rparr>"

definition dotted_page :: page where
  "dotted_page =
     sample_page\<lparr>op_users := [user_row ''7'' ''alice'', user_row ''4.2'' ''dave'']\<rparr>"

definition classed_row :: element where
  "classed_row = Element (Some ''user_4'') [''user'', ''x''] [] []"

definition classed_page :: page where
  "classed_page = sample_page\<lparr>op_users := [user_row ''7'' ''alice'', classed_row]\<rparr>"

text \<open>A user who confirms every prompt.\<close>

definition agree :: "string \<Rightarrow> bool" where
  "agree message = True"

text \<open>
  A jQuery whose \<^verbatim>\<open>$(responseText)\<close> builds one row from the name in the reply, and whose
  engine matches nothing on other selectors.
\<close>

definition row_of_reply :: "string \<Rightarrow> jsval \<Rightarrow> element list" where
  "row_of_reply i v = [user_row i (js_to_string v)]"

definition sample_jquery :: "string \<Rightarrow> jquery" where
  "sample_jquery i = \<lparr>jq_build = row_of_reply i, jq_find = (\<lambda>selector doc. Some (\<lambda>path. False))\<rparr>"

section \<open>Facts about the selectors\<close>

lemma count_where_append: "count_where P (xs @ ys) = count_where P xs + count_where P ys"
  by (induction P xs rule: count_where.induct) auto

lemma remove_where_append: "remove_where P (xs @ ys) = remove_where P xs @ remove_where P ys"
  by (induction P xs rule: remove_where.induct) auto

lemma remove_where_absent: "count_where P xs = 0 \<Longrightarrow> remove_where P xs = xs"
  by (induction P xs rule: count_where.induct) (auto split: if_splits)

lemma count_remove_where_local:
  "(\<And>i c h ch ch'. P (Element i c h ch) = P (Element i c h ch')) \<Longrightarrow>
   count_where P (remove_where P xs) = 0"
proof (induction P xs rule: remove_where.induct)
  case (1 P)
  then show ?case by simp
next
  case (2 P i c h ch es)
  from "2.prems" have same: "P (Element i c h (remove_where P ch)) = P (Element i c h ch)"
    by blast
  show ?case
  proof (cases "P (Element i c h ch)")
    case True
    then show ?thesis using "2.IH"(1) "2.prems" by simp
  next
    case False
    then show ?thesis using "2.IH"(2,3) "2.prems" same by simp
  qed
qed

lemma count_remove_where: "count_where (with_id s) (remove_where (with_id s) xs) = 0"
  by (rule count_remove_where_local) (simp add: with_id_def)

lemma elem_id_remove_where:
  "map elem_id (remove_where (with_id s) xs) = filter (\<lambda>i. i \<noteq> Some s) (map elem_id xs)"
  by (induction "with_id s" xs rule: remove_where.induct) (auto simp: with_id_def)

lemma remove_where_keeps:
  "r \<in> set xs \<Longrightarrow> count_where P [r] = 0 \<Longrightarrow> r \<in> set (remove_where P xs)"
proof (induction P xs rule: remove_where.induct)
  case (1 P)
  then show ?case by simp
next
  case (2 P i c h ch es)
  show ?case
  proof (cases "r = Element i c h ch")
    case True
    with "2.prems" have "\<not> P (Element i c h ch)" and "count_where P ch = 0"
      by (auto split: if_splits)
    then show ?thesis using True by (simp add: remove_where_absent)
  next
    case False
    with "2.prems" have "r \<in> set es" by simp
    then show ?thesis using "2.IH" "2.prems"(2) by auto
  qed
qed

lemma replace_where_append:
  "replace_where P html (xs @ ys) = replace_where P html xs @ replace_where P html ys"
  by (induction P html xs rule: replace_where.induct) auto

lemma replace_where_absent: "count_where P xs = 0 \<Longrightarrow> replace_where P html xs = xs"
  by (induction P html xs rule: replace_where.induct) (auto split: if_splits)

lemma count_replace_where_local:
  "(\<And>i c h ch ch'. P (Element i c h ch) = P (Element i c h ch')) \<Longrightarrow>
   count_where P xs = 1 \<Longrightarrow>
   count_where P (replace_where P html xs) = count_where P html"
proof (induction P html xs rule: replace_where.induct)
  case (1 P html)
  then show ?case by simp
next
  case (2 P html i c h ch es)
  from "2.prems"(1)
  have same: "P (Element i c h (replace_where P html ch)) = P (Element i c h ch)"
    by blast
  show ?case
  proof (cases "P (Element i c h ch)")
    case True
    with "2.prems"(2) have "count_where P es = 0" by simp
    then show ?thesis using True by (simp add: replace_where_absent count_where_append)
  next
    case False
    with "2.prems"(2) consider
        "count_where P ch = 1" "count_where P es = 0"
      | "count_where P ch = 0" "count_where P es = 1"
      by (auto simp: add_is_1)
    then show ?thesis
    proof cases
      case 1
      then show ?thesis
        using False same "2.IH"(2) "2.prems"(1) by (simp add: replace_where_absent)
    next
      case 2
      then show ?thesis
        using False same "2.IH"(3) "2.prems"(1) by (simp add: replace_where_absent)
    qed
  qed
qed

lemma count_replace_where:
  "count_where (with_id s) xs = 1 \<Longrightarrow>
   count_where (with_id s) (replace_where (with_id s) html xs) = count_where (with_id s) html"
  by (rule count_replace_where_local) (simp_all add: with_id_def)

lemma take_first_by_id_absent:
  "count_where (with_id s) xs = 0 \<Longrightarrow> take_first_by_id s xs = None"
  by (induction s xs rule: take_first_by_id.induct) (auto simp: with_id_def split: if_splits)

lemma take_first_by_id_append:
  "take_first_by_id s (xs @ ys) =
     (case take_first_by_id s xs of
        Some (e, xs') \<Rightarrow> Some (e, xs' @ ys)
      | None \<Rightarrow>
         (case take_first_by_id s ys of
            Some (e, ys') \<Rightarrow> Some (e, xs @ ys')
          | None \<Rightarrow> None))"
  by (induction s xs rule: take_first_by_id.induct) (auto split: option.splits)

lemma take_first_by_id_row:
  "elem_id r = Some s \<Longrightarrow> count_where (with_id s) xs = 0 \<Longrightarrow>
   take_first_by_id s (xs @ r # ys) = Some (r, xs @ ys)"
  by (cases r) (simp add: take_first_by_id_append take_first_by_id_absent)

lemma split_dot_ident: "list_all ident_char s \<Longrightarrow> split_dot s = [s]"
  by (induction s) (auto simp: ident_char_def letter_def digit_def)

lemma css_ident_chars: "css_ident s \<Longrightarrow> s \<noteq> [] \<and> list_all ident_char s"
  by (cases s) (auto simp: css_ident_def ident_char_def)

lemma select_in_op_users_css:
  "css_ident s \<Longrightarrow> select_in_op_users jq s doc = Some (Every (with_id s))"
proof -
  assume css: "css_ident s"
  then have "split_dot s = [s]" "s \<noteq> []"
    using css_ident_chars split_dot_ident by auto
  moreover have "(\<lambda>e. with_id s e \<and> has_classes [] e) = with_id s"
    by (simp add: has_classes_def)
  ultimately show ?thesis
    using css by (simp add: select_in_op_users_def hash_select_def)
qed

lemma select_id_ident:
  "list_all ident_char i \<Longrightarrow>
   select_id jq (''user_'' @ i) doc = Some (First (''user_'' @ i) (\<lambda>e. True))"
  by (simp add: select_id_def ident_def ident_char_def letter_def)

lemma dotted_selects_first:
  "select_in_op_users jq ''user_4.2'' doc = Some (First ''user_4'' (has_classes [''2'']))"
  by (simp add: select_in_op_users_def hash_select_def css_ident_def digit_ident_def
      ident_char_def letter_def digit_def)

lemma dotted_selects_first_id:
  "select_id jq ''user_4.2'' doc = Some (First ''user_4'' (has_classes [''2'']))"
  by (simp add: select_id_def ident_def hash_select_def css_ident_def digit_ident_def
      ident_char_def letter_def digit_def)

lemma classed_selects_every:
  "select_in_op_users jq ''user_4.x'' doc =
     Some (Every (\<lambda>e. with_id ''user_4'' e \<and> has_classes [''x''] e))"
  by (simp add: select_in_op_users_def hash_select_def css_ident_def digit_ident_def
      ident_char_def letter_def digit_def)

lemma no_user_4: "take_first_by_id ''user_4'' (op_users dotted_page) = None"
  by (simp add: dotted_page_def sample_page_def user_row_def)

lemma html_branch_rows:
  assumes "ct \<noteq> Some ''application/json''" and "attr_id (jq_build jq body) = Some i"
    and "css_ident i"
  shows "op_users (update_user_permissions jq body ct p) =
      (if count_where (with_id i) (op_users p) = 1
       then replace_where (with_id i) (jq_build jq body) (op_users p)
       else op_users p @ jq_build jq body)"
  using assms
  by (simp add: update_user_permissions_def qtip_hide_def or_undefined_def Let_def
      select_in_op_users_css)

lemma html_branch_rest:
  assumes "ct \<noteq> Some ''application/json''" and "attr_id (jq_build jq body) = Some i"
    and "css_ident i"
  shows "qtips (update_user_permissions jq body ct p) =
      map (\<lambda>q. q\<lparr>qtip_visible := False\<rparr>) (qtips p)"
    and "errors (update_user_permissions jq body ct p) = errors p"
    and "requests (update_user_permissions jq body ct p) = requests p"
  using assms
  by (simp_all add: update_user_permissions_def qtip_hide_def or_undefined_def Let_def
      select_in_op_users_css)

lemma sel_remove_first_row:
  "elem_id r = Some s \<Longrightarrow> count_where (with_id s) xs = 0 \<Longrightarrow>
   sel_remove (First s (\<lambda>e. True)) (xs @ r # ys) = xs @ ys"
  by (simp add: take_first_by_id_row)

section \<open>Reconciliation of the replies to a form submission\<close>

text \<open>
  C1, as amended. A reply whose \<^verbatim>\<open>Content-Type\<close> is \<^verbatim>\<open>application/json\<close> and whose
  payload is a string \<open>s\<close> that is a CSS identifier: every popover is hidden; the rows
  that leave the container are exactly those whose identifier is \<open>s\<close> (the identifiers of
  the rows that stay are those of the rows before, in order, without \<open>s\<close>); when one row
  has the identifier, the container is left with the rows before it and after it; a row in
  which the identifier does not occur stays as it is, and no element with the identifier
  is left. The error region and the requests are untouched.
\<close>

theorem update_json_string_removes_row:
  assumes "css_ident s"
  shows "let p' = update_user_permissions jq (JString s) (Some ''application/json'') p in
     qtips p' = map (\<lambda>q. q\<lparr>qtip_visible := False\<rparr>) (qtips p) \<and>
     map elem_id (op_users p') = filter (\<lambda>i. i \<noteq> Some s) (map elem_id (op_users p)) \<and>
     (\<forall>xs r ys. op_users p = xs @ r # ys \<and> elem_id r = Some s \<and>
          count_where (with_id s) (xs @ ys) = 0
        \<longrightarrow> op_users p' = xs @ ys) \<and>
     (\<forall>r \<in> set (op_users p). count_where (with_id s) [r] = 0 \<longrightarrow> r \<in> set (op_users p')) \<and>
     errors p' = errors p \<and> requests p' = requests p \<and>
     count_where (with_id s) (op_users p') = 0"
proof -
  define p' where "p' = update_user_permissions jq (JString s) (Some ''application/json'') p"
  have rows: "op_users p' = remove_where (with_id s) (op_users p)"
    and tips: "qtips p' = map (\<lambda>q. q\<lparr>qtip_visible := False\<rparr>) (qtips p)"
    and rest: "errors p' = errors p" "requests p' = requests p"
    by (simp_all add: p'_def update_user_permissions_def qtip_hide_def
        select_in_op_users_css [OF assms])
  have one: "op_users p' = xs @ ys"
    if "op_users p = xs @ r # ys" "elem_id r = Some s" "count_where (with_id s) (xs @ ys) = 0"
    for xs r ys
  proof -
    from that(3) have "remove_where (with_id s) xs = xs" "remove_where (with_id s) ys = ys"
      by (simp_all add: count_where_append remove_where_absent)
    moreover from that(2) have "remove_where (with_id s) [r] = []"
      by (cases r) (simp add: with_id_def)
    ultimately show ?thesis
      using remove_where_append [of "with_id s" xs "[r] @ ys"]
        remove_where_append [of "with_id s" "[r]" ys]
      by (simp add: rows that(1))
  qed
  have kept: "r \<in> set (op_users p')"
    if "r \<in> set (op_users p)" "count_where (with_id s) [r] = 0" for r
    using that by (simp add: rows remove_where_keeps)
  show ?thesis
    unfolding Let_def p'_def [symmetric]
    using tips rest one kept by (simp add: rows elem_id_remove_where count_remove_where)
qed

theorem update_json_string_removes_row_witness:
  "css_ident ''user_42'' \<and>
   op_users sample_page = [user_row ''7'' ''alice''] @ user_row ''42'' ''bob'' # [group_row ''13'' ''staff''] \<and>
   elem_id (user_row ''42'' ''bob'') = Some ''user_42'' \<and>
   count_where (with_id ''user_42'') ([user_row ''7'' ''alice''] @ [group_row ''13'' ''staff'']) = 0 \<and>
   op_users (update_user_permissions (sample_jquery ''0'') (JString ''user_42'')
       (Some ''application/json'') sample_page)
     = [user_row ''7'' ''alice''] @ [group_row ''13'' ''staff''] \<and>
   user_row ''7'' ''alice'' \<in> set (op_users
     (update_user_permissions (sample_jquery ''0'') (JString ''user_42'')
       (Some ''application/json'') sample_page))"
proof -
  have css: "css_ident ''user_42''"
    by (simp add: css_ident_def ident_char_def letter_def digit_def)
  have a: "op_users sample_page =
      [user_row ''7'' ''alice''] @ user_row ''42'' ''bob'' # [group_row ''13'' ''staff'']"
    by (simp add: sample_page_def)
  have b: "elem_id (user_row ''42'' ''bob'') = Some ''user_42''"
    by (simp add: user_row_def)
  have c: "count_where (with_id ''user_42'')
      ([user_row ''7'' ''alice''] @ [group_row ''13'' ''staff'']) = 0"
    by (simp add: user_row_def group_row_def with_id_def)
  have d: "user_row ''7'' ''alice'' \<in> set (op_users sample_page)"
    by (simp add: sample_page_def)
  have e: "count_where (with_id ''user_42'') [user_row ''7'' ''alice''] = 0"
    by (simp add: user_row_def with_id_def)
  note t = update_json_string_removes_row
    [OF css, where jq = "sample_jquery ''0''" and p = sample_page, unfolded Let_def]
  have f: "op_users (update_user_permissions (sample_jquery ''0'') (JString ''user_42'')
          (Some ''application/json'') sample_page)
        = [user_row ''7'' ''alice''] @ [group_row ''13'' ''staff'']"
    using t [THEN conjunct2, THEN conjunct2, THEN conjunct1, rule_format,
        OF conjI [OF a conjI [OF b c]]] .
  have g: "user_row ''7'' ''alice'' \<in> set (op_users
     (update_user_permissions (sample_jquery ''0'') (JString ''user_42'')
       (Some ''application/json'') sample_page))"
    using t [THEN conjunct2, THEN conjunct2, THEN conjunct2, THEN conjunct1, rule_format,
        OF d e] .
  show ?thesis
    using css a b c f g by (intro conjI)
qed

text \<open>
  Without the restriction the statement fails. The reply \<^verbatim>\<open>"user_4.2"\<close> gives the
  selector \<^verbatim>\<open>#op_users #user_4.2\<close>, which asks for the identifier \<^verbatim>\<open>user_4\<close> and the
  class \<^verbatim>\<open>2\<close>: the row whose identifier is \<^verbatim>\<open>user_4.2\<close> stays.
\<close>

theorem json_string_with_dot_removes_nothing:
  "elem_id (user_row ''4.2'' ''dave'') = Some ''user_4.2'' \<and>
   user_row ''4.2'' ''dave'' \<in> set (op_users dotted_page) \<and>
   op_users (update_user_permissions (sample_jquery ''0'') (JString ''user_4.2'')
       (Some ''application/json'') dotted_page) = op_users dotted_page"
proof -
  have "op_users (update_user_permissions (sample_jquery ''0'') (JString ''user_4.2'')
       (Some ''application/json'') dotted_page) = op_users dotted_page"
    by (simp add: update_user_permissions_def qtip_hide_def dotted_selects_first no_user_4)
  moreover have "elem_id (user_row ''4.2'' ''dave'') = Some ''user_4.2''"
    by (simp add: user_row_def)
  moreover have "user_row ''4.2'' ''dave'' \<in> set (op_users dotted_page)"
    by (simp add: dotted_page_def)
  ultimately show ?thesis by (intro conjI)
qed

text \<open>
  C2, as amended. A reply whose \<^verbatim>\<open>Content-Type\<close> is not \<^verbatim>\<open>application/json\<close>, with a
  fragment whose identifier \<open>i\<close> is a CSS identifier: every popover is hidden. When
  exactly one element of the container has the identifier, the fragment replaces it where
  it stands; for a row that is this one element, the fragment stands between the rows
  before it and the rows after it. When no element or more than one has the identifier,
  the fragment is appended after the rows. The error region and the requests are
  untouched.
\<close>

theorem update_html_replaces_or_appends:
  assumes "ct \<noteq> Some ''application/json''" and "attr_id (jq_build jq body) = Some i"
    and "css_ident i"
  shows "let p' = update_user_permissions jq body ct p; n = count_where (with_id i) (op_users p) in
     qtips p' = map (\<lambda>q. q\<lparr>qtip_visible := False\<rparr>) (qtips p) \<and>
     (\<forall>xs r ys. op_users p = xs @ r # ys \<and> elem_id r = Some i \<and>
          count_where (with_id i) (xs @ children r @ ys) = 0
        \<longrightarrow> n = 1 \<and> op_users p' = xs @ jq_build jq body @ ys) \<and>
     (n = 1 \<longrightarrow> op_users p' = replace_where (with_id i) (jq_build jq body) (op_users p)) \<and>
     (n \<noteq> 1 \<longrightarrow> op_users p' = op_users p @ jq_build jq body) \<and>
     errors p' = errors p \<and> requests p' = requests p"
proof -
  define p' where "p' = update_user_permissions jq body ct p"
  note rows = html_branch_rows [OF assms, of p, folded p'_def]
  note rest = html_branch_rest [OF assms, of p, folded p'_def]
  have replaced: "count_where (with_id i) (op_users p) = 1 \<and>
      op_users p' = xs @ jq_build jq body @ ys"
    if "op_users p = xs @ r # ys" "elem_id r = Some i"
      "count_where (with_id i) (xs @ children r @ ys) = 0"
    for xs r ys
  proof -
    from that(3) have zero: "count_where (with_id i) xs = 0"
        "count_where (with_id i) (children r) = 0" "count_where (with_id i) ys = 0"
      by (simp_all add: count_where_append)
    from that(2) zero(2) have r: "count_where (with_id i) [r] = 1"
        "replace_where (with_id i) (jq_build jq body) [r] = jq_build jq body"
      by (cases r; simp add: with_id_def)+
    have one: "count_where (with_id i) (op_users p) = 1"
      using count_where_append [of "with_id i" xs "[r] @ ys"]
        count_where_append [of "with_id i" "[r]" ys] zero r(1)
      by (simp add: that(1))
    moreover have "replace_where (with_id i) (jq_build jq body) (op_users p) =
        xs @ jq_build jq body @ ys"
      using replace_where_append [of "with_id i" "jq_build jq body" xs "[r] @ ys"]
        replace_where_append [of "with_id i" "jq_build jq body" "[r]" ys] r(2) zero
      by (simp add: that(1) replace_where_absent)
    ultimately show ?thesis by (simp add: rows)
  qed
  have single: "count_where (with_id i) (op_users p) = 1 \<longrightarrow>
      op_users p' = replace_where (with_id i) (jq_build jq body) (op_users p)"
    and other: "count_where (with_id i) (op_users p) \<noteq> 1 \<longrightarrow>
      op_users p' = op_users p @ jq_build jq body"
    by (simp_all add: rows)
  show ?thesis
    unfolding Let_def p'_def [symmetric]
    using rest replaced single other by blast
qed

theorem update_html_replaces_or_appends_witness:
  "op_users (update_user_permissions (sample_jquery ''42'') (JString ''robert'')
       (Some ''text/html'') sample_page)
     = [user_row ''7'' ''alice''] @ [user_row ''42'' ''robert''] @ [group_row ''13'' ''staff''] \<and>
   op_users (update_user_permissions (sample_jquery ''9'') (JString ''carol'')
       (Some ''text/html'') sample_page)
     = op_users sample_page @ [user_row ''9'' ''carol'']"
proof -
  have ct: "Some ''text/html'' \<noteq> Some ''application/json''"
    by simp
  have id42: "attr_id (jq_build (sample_jquery ''42'') (JString ''robert'')) = Some ''user_42''"
    by (simp add: sample_jquery_def row_of_reply_def user_row_def)
  have id9: "attr_id (jq_build (sample_jquery ''9'') (JString ''carol'')) = Some ''user_9''"
    by (simp add: sample_jquery_def row_of_reply_def user_row_def)
  have css42: "css_ident ''user_42''" and css9: "css_ident ''user_9''"
    by (simp_all add: css_ident_def ident_char_def letter_def digit_def)
  have rows: "op_users sample_page =
      [user_row ''7'' ''alice''] @ user_row ''42'' ''bob'' # [group_row ''13'' ''staff'']"
    by (simp add: sample_page_def)
  have row: "elem_id (user_row ''42'' ''bob'') = Some ''user_42''"
    by (simp add: user_row_def)
  have only: "count_where (with_id ''user_42'')
      ([user_row ''7'' ''alice''] @ children (user_row ''42'' ''bob'') @ [group_row ''13'' ''staff'']) = 0"
    by (simp add: user_row_def group_row_def with_id_def)
  have none: "count_where (with_id ''user_9'') (op_users sample_page) \<noteq> 1"
    by (simp add: sample_page_def user_row_def group_row_def with_id_def)
  have b42: "jq_build (sample_jquery ''42'') (JString ''robert'') = [user_row ''42'' ''robert'']"
    and b9: "jq_build (sample_jquery ''9'') (JString ''carol'') = [user_row ''9'' ''carol'']"
    by (simp_all add: sample_jquery_def row_of_reply_def)
  note t42 = update_html_replaces_or_appends
    [OF ct id42 css42, where p = sample_page, unfolded Let_def b42]
  note t9 = update_html_replaces_or_appends
    [OF ct id9 css9, where p = sample_page, unfolded Let_def b9]
  have a: "op_users (update_user_permissions (sample_jquery ''42'') (JString ''robert'')
       (Some ''text/html'') sample_page)
     = [user_row ''7'' ''alice''] @ [user_row ''42'' ''robert''] @ [group_row ''13'' ''staff'']"
    using t42 [THEN conjunct2, THEN conjunct1, rule_format,
        OF conjI [OF rows conjI [OF row only]], THEN conjunct2] .
  have b: "op_users (update_user_permissions (sample_jquery ''9'') (JString ''carol'')
       (Some ''text/html'') sample_page)
     = op_users sample_page @ [user_row ''9'' ''carol'']"
    using t9 [THEN conjunct2, THEN conjunct2, THEN conjunct2, THEN conjunct1, rule_format,
        OF none] .
  from a b show ?thesis by (intro conjI)
qed

text \<open>
  As stated, with replacement whenever a row with the identifier exists, the claim
  fails: with two rows of identifier \<^verbatim>\<open>user_7\<close> the fragment is appended and both rows
  stay; and a fragment of identifier \<^verbatim>\<open>user_4.2\<close> is appended although a row has that
  identifier, since the selector asks for \<^verbatim>\<open>user_4\<close> and the class \<^verbatim>\<open>2\<close>.
\<close>

theorem html_fragment_not_replaced:
  "user_row ''7'' ''alice'' \<in> set (op_users twin_page) \<and>
   op_users (update_user_permissions (sample_jquery ''7'') (JString ''alicia'')
       (Some ''text/html'') twin_page)
     = [user_row ''7'' ''alice'', user_row ''7'' ''alice'', user_row ''7'' ''alicia''] \<and>
   user_row ''4.2'' ''dave'' \<in> set (op_users dotted_page) \<and>
   op_users (update_user_permissions (sample_jquery ''4.2'') (JString ''david'')
       (Some ''text/html'') dotted_page)
     = [user_row ''7'' ''alice'', user_row ''4.2'' ''dave'', user_row ''4.2'' ''david'']"
proof -
  have css: "css_ident ''user_7''"
    by (simp add: css_ident_def ident_char_def letter_def digit_def)
  have id7: "attr_id (jq_build (sample_jquery ''7'') (JString ''alicia'')) = Some ''user_7''"
    by (simp add: sample_jquery_def row_of_reply_def user_row_def)
  have two: "count_where (with_id ''user_7'') (op_users twin_page) = 2"
    by (simp add: twin_page_def user_row_def with_id_def)
  have a: "op_users (update_user_permissions (sample_jquery ''7'') (JString ''alicia'')
       (Some ''text/html'') twin_page)
     = [user_row ''7'' ''alice'', user_row ''7'' ''alice'', user_row ''7'' ''alicia'']"
    using html_branch_rows [OF _ id7 css, of "Some ''text/html''" twin_page] two
    by (simp add: twin_page_def sample_jquery_def row_of_reply_def)
  have b: "op_users (update_user_permissions (sample_jquery ''4.2'') (JString ''david'')
       (Some ''text/html'') dotted_page)
     = [user_row ''7'' ''alice'', user_row ''4.2'' ''dave'', user_row ''4.2'' ''david'']"
    by (simp add: update_user_permissions_def qtip_hide_def or_undefined_def Let_def
        sample_jquery_def row_of_reply_def user_row_def [of "''4.2''" "''david''"]
        dotted_selects_first no_user_4)
      (simp add: dotted_page_def)
  have c: "user_row ''7'' ''alice'' \<in> set (op_users twin_page)"
    by (simp add: twin_page_def)
  have d: "user_row ''4.2'' ''dave'' \<in> set (op_users dotted_page)"
    by (simp add: dotted_page_def)
  show ?thesis
    using c a d b by (intro conjI)
qed

text \<open>
  C3. A reply whose \<^verbatim>\<open>Content-Type\<close> is \<^verbatim>\<open>application/json\<close> and whose payload is an
  object: the error region gains, after what it holds, one item \<^verbatim>\<open><li>message</li>\<close>
  for each property of the object, in order; the popovers stay as they are, open ones
  open, and the rows and the requests are untouched.
\<close>

theorem update_json_object_lists_errors:
  "let p' = update_user_permissions jq (JObject kvs) (Some ''application/json'') p in
     errors p' = errors p @ map (\<lambda>kv. ''<li>'' @ js_to_string (snd kv) @ ''</li>'') kvs \<and>
     length (errors p') = length (errors p) + length kvs \<and>
     qtips p' = qtips p \<and> op_users p' = op_users p \<and> requests p' = requests p"
  by (simp add: update_user_permissions_def Let_def comp_def)

theorem update_json_object_lists_errors_witness:
  "errors (update_user_permissions (sample_jquery ''0'') (JObject [(''name'', JString ''required'')])
       (Some ''application/json'') sample_page) = [''<li>required</li>''] \<and>
   qtips (update_user_permissions (sample_jquery ''0'') (JObject [(''name'', JString ''required'')])
       (Some ''application/json'') sample_page) = qtips sample_page"
  using update_json_object_lists_errors
    [of "sample_jquery ''0''" "[(''name'', JString ''required'')]" sample_page]
  by (simp add: Let_def sample_page_def)

text \<open>
  C9, as amended. In the branch of the fragment, when the identifier \<open>i\<close> of the
  fragment is a CSS identifier, the number \<open>n\<close> of elements of the container that have
  it decides: unless \<open>n\<close> is one, the fragment is appended, and with more than one match
  every row before stays where and as it was; only when \<open>n\<close> is one is the match
  replaced, after which the identifier occurs as often as it does in the fragment.
\<close>

theorem update_html_replaces_only_single_match:
  assumes "ct \<noteq> Some ''application/json''" and "attr_id (jq_build jq body) = Some i"
    and "css_ident i"
  shows "let p' = update_user_permissions jq body ct p; n = count_where (with_id i) (op_users p) in
     (n \<noteq> 1 \<longrightarrow> op_users p' = op_users p @ jq_build jq body) \<and>
     (1 < n \<longrightarrow> take (length (op_users p)) (op_users p') = op_users p) \<and>
     (n = 1 \<longrightarrow> op_users p' = replace_where (with_id i) (jq_build jq body) (op_users p) \<and>
        count_where (with_id i) (op_users p') = count_where (with_id i) (jq_build jq body))"
proof -
  define p' where "p' = update_user_permissions jq body ct p"
  note rows = html_branch_rows [OF assms, of p, folded p'_def]
  show ?thesis
    unfolding Let_def p'_def [symmetric]
    by (simp add: rows count_replace_where)
qed

theorem update_html_replaces_only_single_match_witness:
  "count_where (with_id ''user_7'') (op_users twin_page) = 2 \<and>
   op_users (update_user_permissions (sample_jquery ''7'') (JString ''alicia'')
       (Some ''text/html'') twin_page)
     = op_users twin_page @ [user_row ''7'' ''alicia''] \<and>
   count_where (with_id ''user_42'') (op_users sample_page) = 1 \<and>
   op_users (update_user_permissions (sample_jquery ''42'') (JString ''robert'')
       (Some ''text/html'') sample_page)
     = replace_where (with_id ''user_42'') [user_row ''42'' ''robert''] (op_users sample_page)"
proof -
  have ct: "Some ''text/html'' \<noteq> Some ''application/json''"
    by simp
  have id7: "attr_id (jq_build (sample_jquery ''7'') (JString ''alicia'')) = Some ''user_7''"
    by (simp add: sample_jquery_def row_of_reply_def user_row_def)
  have id42: "attr_id (jq_build (sample_jquery ''42'') (JString ''robert'')) = Some ''user_42''"
    by (simp add: sample_jquery_def row_of_reply_def user_row_def)
  have css7: "css_ident ''user_7''" and css42: "css_ident ''user_42''"
    by (simp_all add: css_ident_def ident_char_def letter_def digit_def)
  have b7: "jq_build (sample_jquery ''7'') (JString ''alicia'') = [user_row ''7'' ''alicia'']"
    and b42: "jq_build (sample_jquery ''42'') (JString ''robert'') = [user_row ''42'' ''robert'']"
    by (simp_all add: sample_jquery_def row_of_reply_def)
  have two: "count_where (with_id ''user_7'') (op_users twin_page) = 2"
    by (simp add: twin_page_def user_row_def with_id_def)
  then have many: "count_where (with_id ''user_7'') (op_users twin_page) \<noteq> 1"
    by simp
  have one: "count_where (with_id ''user_42'') (op_users sample_page) = 1"
    by (simp add: sample_page_def user_row_def group_row_def with_id_def)
  note dup = update_html_replaces_only_single_match
    [OF ct id7 css7, where p = twin_page, unfolded Let_def b7]
  note single = update_html_replaces_only_single_match
    [OF ct id42 css42, where p = sample_page, unfolded Let_def b42]
  have a: "op_users (update_user_permissions (sample_jquery ''7'') (JString ''alicia'')
       (Some ''text/html'') twin_page)
     = op_users twin_page @ [user_row ''7'' ''alicia'']"
    using dup [THEN conjunct1, rule_format, OF many] .
  have b: "op_users (update_user_permissions (sample_jquery ''42'') (JString ''robert'')
       (Some ''text/html'') sample_page)
     = replace_where (with_id ''user_42'') [user_row ''42'' ''robert''] (op_users sample_page)"
    using single [THEN conjunct2, THEN conjunct2, rule_format, OF one, THEN conjunct1] .
  show ?thesis
    using two a one b by (intro conjI)
qed

text \<open>
  Without the restriction a row is replaced although no element has the identifier of
  the fragment: for the fragment \<^verbatim>\<open>user_4.x\<close> the selector \<^verbatim>\<open>#op_users #user_4.x\<close>
  matches the one row of identifier \<^verbatim>\<open>user_4\<close> and class \<^verbatim>\<open>x\<close>, and the fragment takes
  its place.
\<close>

theorem classed_row_replaced:
  "count_where (with_id ''user_4.x'') (op_users classed_page) = 0 \<and>
   attr_id (jq_build (sample_jquery ''4.x'') (JString ''dave'')) = Some ''user_4.x'' \<and>
   op_users classed_page = [user_row ''7'' ''alice'', classed_row] \<and>
   op_users (update_user_permissions (sample_jquery ''4.x'') (JString ''dave'')
       (Some ''text/html'') classed_page)
     = [user_row ''7'' ''alice'', user_row ''4.x'' ''dave'']"
proof -
  have a: "count_where (with_id ''user_4.x'') (op_users classed_page) = 0"
    by (simp add: classed_page_def classed_row_def user_row_def with_id_def)
  have b: "attr_id (jq_build (sample_jquery ''4.x'') (JString ''dave'')) = Some ''user_4.x''"
    by (simp add: sample_jquery_def row_of_reply_def user_row_def)
  have c: "op_users classed_page = [user_row ''7'' ''alice'', classed_row]"
    by (simp add: classed_page_def)
  have one: "count_where (\<lambda>e. with_id ''user_4'' e \<and> has_classes [''x''] e)
      [user_row ''7'' ''alice'', classed_row] = 1"
    by (simp add: classed_row_def user_row_def with_id_def has_classes_def)
  have swap: "replace_where (\<lambda>e. with_id ''user_4'' e \<and> has_classes [''x''] e)
      [user_row ''4.x'' ''dave''] [user_row ''7'' ''alice'', classed_row]
      = [user_row ''7'' ''alice'', user_row ''4.x'' ''dave'']"
    by (simp add: classed_row_def user_row_def [of "''7''"] with_id_def has_classes_def)
  have d: "op_users (update_user_permissions (sample_jquery ''4.x'') (JString ''dave'')
       (Some ''text/html'') classed_page)
     = [user_row ''7'' ''alice'', user_row ''4.x'' ''dave'']"
    using b one swap
    by (simp add: update_user_permissions_def qtip_hide_def or_undefined_def Let_def
        classed_selects_every c sample_jquery_def row_of_reply_def)
  show ?thesis
    using a b c d by (intro conjI)
qed

section \<open>Deleting a user or a group\<close>

text \<open>
  C4, as amended. A confirmed click on the delete control of a row whose identifier is
  \<^verbatim>\<open>user_\<close> followed by \<open>i\<close>, where \<open>i\<close> is made of letters, digits, \<^verbatim>\<open>_\<close> and
  \<^verbatim>\<open>-\<close>: no popover is left; one request is added, to \<open>user_url\<close>, with the parameters
  \<open>user = i\<close> and \<open>obj = obj_id\<close>, expecting JSON; the rows are untouched until the reply.
  When the reply is a string, the first row whose identifier is that of the clicked row
  leaves the container, and the rows before and after it stay; when the reply is not a
  string, the rows are those before the click.
\<close>

theorem delete_user_removes_row:
  assumes "elem_id row = Some (''user_'' @ i)"
    and "confirm (''Remove this user: '' @ or_null (name_html row))"
    and "list_all ident_char i"
  shows "let p1 = delete_user_click confirm row p; k = length (requests p) in
     qtips p1 = [] \<and>
     requests p1 = requests p @
       [\<lparr>req_url = user_url p, req_data = [(''user'', i), (''obj'', obj_id p)],
         req_data_type = Some ''json'', req_success = DeleteUserReply i\<rparr>] \<and>
     op_users p1 = op_users p \<and>
     (\<forall>s ct xs r ys. op_users p = xs @ r # ys \<and> elem_id r = Some (''user_'' @ i) \<and>
          count_where (with_id (''user_'' @ i)) xs = 0
        \<longrightarrow> op_users (deliver jq k (Success (JString s) ct) p1) = xs @ ys) \<and>
     (\<forall>v ct. js_typeof v \<noteq> ''string''
        \<longrightarrow> op_users (deliver jq k (Success v ct) p1) = op_users p)"
proof -
  define p1 where "p1 = delete_user_click confirm row p"
  define k where "k = length (requests p)"
  have p1: "p1 = p\<lparr>qtips := [], requests := requests p @
       [\<lparr>req_url = user_url p, req_data = [(''user'', i), (''obj'', obj_id p)],
         req_data_type = Some ''json'', req_success = DeleteUserReply i\<rparr>]\<rparr>"
    using assms(1,2)
    by (simp add: p1_def delete_user_click_def Let_def qtip_destroy_def post_def id_property_def)
  have reply: "op_users (deliver jq k (Success v ct) p1) =
      op_users (delete_user_reply jq i v p)" for v ct
    by (simp add: p1 k_def deliver_def Let_def delete_user_reply_def split: option.splits)
  have removed: "op_users (deliver jq k (Success (JString s) ct) p1) = xs @ ys"
    if "op_users p = xs @ r # ys" "elem_id r = Some (''user_'' @ i)"
      "count_where (with_id (''user_'' @ i)) xs = 0"
    for s ct xs r ys
    using that sel_remove_first_row [of r "''user_'' @ i" xs ys]
      select_id_ident [OF assms(3), of jq "xs @ r # ys"]
    by (simp add: reply delete_user_reply_def)
  have kept: "op_users (deliver jq k (Success v ct) p1) = op_users p"
    if "js_typeof v \<noteq> ''string''" for v ct
    using that by (simp add: reply delete_user_reply_def)
  have "qtips p1 = []" "op_users p1 = op_users p"
    "requests p1 = requests p @
       [\<lparr>req_url = user_url p, req_data = [(''user'', i), (''obj'', obj_id p)],
         req_data_type = Some ''json'', req_success = DeleteUserReply i\<rparr>]"
    by (simp_all add: p1)
  then show ?thesis
    unfolding Let_def p1_def [symmetric] k_def [symmetric]
    using removed kept by blast
qed

theorem delete_user_removes_row_witness:
  "(let p1 = delete_user_click (\<lambda>m. m = ''Remove this user: bob'') (user_row ''42'' ''bob'')
              sample_page
    in qtips p1 = [] \<and>
       requests p1 =
         [\<lparr>req_url = ''/object/1/users/'', req_data = [(''user'', ''42''), (''obj'', ''1'')],
           req_data_type = Some ''json'', req_success = DeleteUserReply ''42''\<rparr>] \<and>
       op_users (deliver (sample_jquery ''0'') 0 (Success (JString ''1'') (Some ''application/json'')) p1)
         = [user_row ''7'' ''alice''] @ [group_row ''13'' ''staff''] \<and>
       op_users (deliver (sample_jquery ''0'') 0 (Success (JNumber 1) (Some ''application/json'')) p1)
         = op_users sample_page)"
proof -
  let ?confirm = "\<lambda>m. m = ''Remove this user: bob''"
  let ?p1 = "delete_user_click ?confirm (user_row ''42'' ''bob'') sample_page"
  have row: "elem_id (user_row ''42'' ''bob'') = Some (''user_'' @ ''42'')"
    by (simp add: user_row_def)
  have yes: "?confirm (''Remove this user: '' @ or_null (name_html (user_row ''42'' ''bob'')))"
    by (simp add: user_row_def name_html_def or_null_def)
  have rows: "op_users sample_page =
      [user_row ''7'' ''alice''] @ user_row ''42'' ''bob'' # [group_row ''13'' ''staff'']"
    by (simp add: sample_page_def)
  have first: "count_where (with_id (''user_'' @ ''42'')) [user_row ''7'' ''alice''] = 0"
    by (simp add: user_row_def with_id_def)
  have number: "js_typeof (JNumber 1) \<noteq> ''string''"
    by simp
  have word: "list_all ident_char ''42''"
    by (simp add: ident_char_def letter_def digit_def)
  have start: "length (requests sample_page) = 0" "requests sample_page = []"
    "user_url sample_page = ''/object/1/users/''" "obj_id sample_page = ''1''"
    by (simp_all add: sample_page_def)
  note t = delete_user_removes_row [where row = "user_row ''42'' ''bob''" and i = "''42''"
      and confirm = ?confirm and p = sample_page and jq = "sample_jquery ''0''", OF row yes word,
      unfolded Let_def start]
  have a: "qtips ?p1 = []"
    using t by (rule conjunct1)
  have b: "requests ?p1 =
         [\<lparr>req_url = ''/object/1/users/'', req_data = [(''user'', ''42''), (''obj'', ''1'')],
           req_data_type = Some ''json'', req_success = DeleteUserReply ''42''\<rparr>]"
    using t [THEN conjunct2, THEN conjunct1] by simp
  have c: "op_users (deliver (sample_jquery ''0'') 0 (Success (JString ''1'') (Some ''application/json'')) ?p1)
         = [user_row ''7'' ''alice''] @ [group_row ''13'' ''staff'']"
    using t [THEN conjunct2, THEN conjunct2, THEN conjunct2, THEN conjunct1, rule_format,
        OF conjI [OF rows conjI [OF row first]]] by simp
  have d: "op_users (deliver (sample_jquery ''0'') 0 (Success (JNumber 1) (Some ''application/json'')) ?p1)
         = op_users sample_page"
    using t [THEN conjunct2, THEN conjunct2, THEN conjunct2, THEN conjunct2, rule_format,
        OF number] by simp
  show ?thesis
    unfolding Let_def using a b c d by (intro conjI)
qed

text \<open>
  Without the restriction the statement fails. For the row \<^verbatim>\<open>user_4.2\<close> the request
  carries \<open>user = 4.2\<close>, and on a string reply the selector \<^verbatim>\<open>#user_4.2\<close> asks for the
  identifier \<^verbatim>\<open>user_4\<close> and the class \<^verbatim>\<open>2\<close>: the row stays.
\<close>

theorem dotted_user_row_not_removed:
  "elem_id (user_row ''4.2'' ''dave'') = Some ''user_4.2'' \<and>
   user_row ''4.2'' ''dave'' \<in> set (op_users dotted_page) \<and>
   requests (delete_user_click agree (user_row ''4.2'' ''dave'') dotted_page) =
     [\<lparr>req_url = ''/object/1/users/'', req_data = [(''user'', ''4.2''), (''obj'', ''1'')],
       req_data_type = Some ''json'', req_success = DeleteUserReply ''4.2''\<rparr>] \<and>
   op_users (deliver (sample_jquery ''0'') 0 (Success (JString ''1'') (Some ''application/json''))
       (delete_user_click agree (user_row ''4.2'' ''dave'') dotted_page))
     = op_users dotted_page"
proof -
  let ?p1 = "delete_user_click agree (user_row ''4.2'' ''dave'') dotted_page"
  have p1: "?p1 = dotted_page\<lparr>qtips := [], requests :=
       [\<lparr>req_url = ''/object/1/users/'', req_data = [(''user'', ''4.2''), (''obj'', ''1'')],
         req_data_type = Some ''json'', req_success = DeleteUserReply ''4.2''\<rparr>]\<rparr>"
    by (simp add: delete_user_click_def Let_def qtip_destroy_def post_def id_property_def
        user_row_def dotted_page_def sample_page_def agree_def)
  have a: "elem_id (user_row ''4.2'' ''dave'') = Some ''user_4.2''"
    by (simp add: user_row_def)
  have b: "user_row ''4.2'' ''dave'' \<in> set (op_users dotted_page)"
    by (simp add: dotted_page_def)
  have c: "requests ?p1 =
         [\<lparr>req_url = ''/object/1/users/'', req_data = [(''user'', ''4.2''), (''obj'', ''1'')],
           req_data_type = Some ''json'', req_success = DeleteUserReply ''4.2''\<rparr>]"
    by (simp add: p1)
  have d: "op_users (deliver (sample_jquery ''0'') 0
        (Success (JString ''1'') (Some ''application/json'')) ?p1) = op_users dotted_page"
    unfolding p1
    by (simp add: deliver_def Let_def delete_user_reply_def dotted_selects_first_id no_user_4)
  show ?thesis
    using a b c d by (intro conjI)
qed

lemma delete_group_click_qtips: "qtips (delete_group_click confirm row p) = qtips p"
  by (simp add: delete_group_click_def Let_def post_def)

text \<open>
  C5. The delete control of a group strips six characters and sends \<open>group = 13\<close> for
  the row \<^verbatim>\<open>group_13\<close>, but it leaves the open popover in place, where the delete
  control of a user destroys it.
\<close>

theorem delete_group_leaves_popover:
  "let p1 = delete_group_click (\<lambda>m. True) (group_row ''13'' ''staff'') sample_page in
     qtips p1 = qtips sample_page \<and> length (qtips p1) = 1 \<and>
     requests p1 =
       [\<lparr>req_url = ''/object/1/users/'', req_data = [(''group'', ''13''), (''obj'', ''1'')],
         req_data_type = Some ''json'', req_success = DeleteGroupReply ''13''\<rparr>] \<and>
     qtips (delete_user_click (\<lambda>m. True) (user_row ''42'' ''bob'') sample_page) = []"
  by (simp add: delete_group_click_def delete_user_click_def Let_def post_def qtip_destroy_def
      sample_page_def group_row_def user_row_def id_property_def)

text \<open>
  C10. When the user declines the prompt, the click on a delete control, of a user or of
  a group, leaves the page as it was: no request, no popover destroyed, no row removed.
\<close>

theorem declined_delete_changes_nothing:
  "(\<not> confirm (''Remove this user: '' @ or_null (name_html row))
      \<longrightarrow> delete_user_click confirm row p = p) \<and>
   (\<not> confirm (''Remove this group: '' @ or_null (name_html row))
      \<longrightarrow> delete_group_click confirm row p = p)"
  by (simp add: delete_user_click_def delete_group_click_def Let_def)

theorem declined_delete_changes_nothing_witness:
  "delete_user_click (\<lambda>m. False) (user_row ''42'' ''bob'') sample_page = sample_page \<and>
   delete_group_click (\<lambda>m. False) (group_row ''13'' ''staff'') sample_page = sample_page"
  using declined_delete_changes_nothing [of "\<lambda>m. False" "user_row ''42'' ''bob''" sample_page]
    declined_delete_changes_nothing [of "\<lambda>m. False" "group_row ''13'' ''staff''" sample_page]
  by blast

section \<open>Popovers\<close>

lemma open_popovers_append:
  "open_popovers (xs @ ys) p = open_popovers ys (open_popovers xs p)"
  by (induction xs arbitrary: p) auto

lemma open_popover_click_length: "length (qtips (open_popover_click x p)) = 1"
  by (cases x) (simp_all add: add_user_click_def permissions_click_def qtip_destroy_def qtip_def)

lemma open_popover_click_qtips:
  "user_url p = user_url q \<Longrightarrow> qtips (open_popover_click x p) = qtips (open_popover_click x q)"
  by (cases x) (simp_all add: add_user_click_def permissions_click_def qtip_destroy_def qtip_def)

lemma open_popover_click_user_url: "user_url (open_popover_click x p) = user_url p"
  by (cases x) (simp_all add: add_user_click_def permissions_click_def qtip_destroy_def qtip_def)

lemma open_popovers_user_url: "user_url (open_popovers xs p) = user_url p"
  by (induction xs arbitrary: p) (auto simp: open_popover_click_user_url)

text \<open>
  C6. After every click that opens a popover, whatever clicks of that kind came before
  and whatever the page held, there is at most one popover: the popovers are those
  that the click leaves on a page whose popovers were destroyed.
\<close>

theorem one_popover_after_each_open:
  "length (qtips (open_popovers (xs @ [x]) p)) \<le> 1 \<and>
   qtips (open_popovers (xs @ [x]) p) = qtips (open_popover_click x (qtip_destroy p))"
proof -
  have last: "open_popovers (xs @ [x]) p = open_popover_click x (open_popovers xs p)"
    by (simp add: open_popovers_append)
  have "user_url (open_popovers xs p) = user_url (qtip_destroy p)"
    by (simp add: open_popovers_user_url qtip_destroy_def)
  then have "qtips (open_popover_click x (open_popovers xs p)) =
      qtips (open_popover_click x (qtip_destroy p))"
    by (rule open_popover_click_qtips)
  then show ?thesis
    using open_popover_click_length [of x "open_popovers xs p"] by (simp add: last)
qed

theorem one_popover_after_each_open_witness:
  "qtips (open_popovers ([AddUser, EditPermissions ''/object/1/user/42/''] @ [AddUser]) sample_page)
     = [\<lparr>qtip_target = AddUserControl, qtip_url = ''/object/1/users/'',
         qtip_title = ''Add User: '', qtip_visible = True\<rparr>]"
  using one_popover_after_each_open
    [of "[AddUser, EditPermissions ''/object/1/user/42/'']" AddUser sample_page]
  by (simp add: add_user_click_def qtip_destroy_def qtip_def sample_page_def)

section \<open>Initialisation\<close>

lemma ready_bindings:
  "bindings (ready p) =
     filter (\<lambda>b. \<not> (b_selector b = ''#add_user'' \<and> b_attachment b = Bound) \<and>
                 \<not> (b_selector b = ''.object_permissions_form .submit'' \<and> b_attachment b = Live) \<and>
                 \<not> (b_selector b = ''.user .delete'' \<and> b_attachment b = Live) \<and>
                 \<not> (b_selector b = ''.group .delete'' \<and> b_attachment b = Live) \<and>
                 \<not> (b_selector b = ''.permissions'' \<and> b_attachment b = Live)) (bindings p) @
     [\<lparr>b_selector = ''#add_user'', b_attachment = Bound, b_event = ''click'',
        b_handler = AddUserClick\<rparr>,
      \<lparr>b_selector = ''.user .delete'', b_attachment = Live, b_event = ''click'',
        b_handler = DeleteUserClick\<rparr>,
      \<lparr>b_selector = ''.group .delete'', b_attachment = Live, b_event = ''click'',
        b_handler = DeleteGroupClick\<rparr>,
      \<lparr>b_selector = ''.permissions'', b_attachment = Live, b_event = ''click'',
        b_handler = PermissionsClick\<rparr>]"
  by (simp add: ready_def Let_def unbind_def die_def click_def live_def conj_ac)

lemma ready_frame:
  "ready p = p\<lparr>bindings := bindings (ready p)\<rparr>"
  by (simp add: ready_def Let_def unbind_def die_def click_def live_def)

lemma ready_ready: "ready (ready p) = ready p"
proof -
  have "bindings (ready (ready p)) = bindings (ready p)"
    unfolding ready_bindings [of "ready p"] unfolding ready_bindings [of p]
    by (simp add: conj_ac)
  then show ?thesis
    using ready_frame [of "ready p"] ready_frame [of p] by simp
qed

lemma ready_funpow: "(ready ^^ Suc n) p = ready p"
  by (induction n) (simp_all add: ready_ready)

lemma foreign_only:
  "list_all (\<lambda>b. foreign (b_handler b)) bs \<Longrightarrow>
   filter (\<lambda>h. \<not> foreign h) (map b_handler (filter Q bs)) = []"
  by (induction bs) auto

text \<open>
  C7. Running the initialisation any number of times more leaves the page that one run
  leaves. On a page where the script had bound nothing, a click on a control that the
  script binds then runs one handler of the script, the one of that control.
\<close>

theorem ready_binds_once:
  "(ready ^^ Suc n) p = ready p \<and>
   (script_free p \<longrightarrow>
      filter (\<lambda>h. \<not> foreign h) (fired ''#add_user'' ''click'' ((ready ^^ Suc n) p)) = [AddUserClick] \<and>
      filter (\<lambda>h. \<not> foreign h) (fired ''.user .delete'' ''click'' ((ready ^^ Suc n) p)) = [DeleteUserClick] \<and>
      filter (\<lambda>h. \<not> foreign h) (fired ''.group .delete'' ''click'' ((ready ^^ Suc n) p)) = [DeleteGroupClick] \<and>
      filter (\<lambda>h. \<not> foreign h) (fired ''.permissions'' ''click'' ((ready ^^ Suc n) p)) = [PermissionsClick])"
proof -
  have "filter (\<lambda>h. \<not> foreign h) (fired sel ''click'' (ready p)) =
      filter (\<lambda>h. \<not> foreign h) (map b_handler (filter (\<lambda>b. b_selector b = sel \<and> b_event b = ''click'')
       [\<lparr>b_selector = ''#add_user'', b_attachment = Bound, b_event = ''click'',
          b_handler = AddUserClick\<rparr>,
        \<lparr>b_selector = ''.user .delete'', b_attachment = Live, b_event = ''click'',
          b_handler = DeleteUserClick\<rparr>,
        \<lparr>b_selector = ''.group .delete'', b_attachment = Live, b_event = ''click'',
          b_handler = DeleteGroupClick\<rparr>,
        \<lparr>b_selector = ''.permissions'', b_attachment = Live, b_event = ''click'',
          b_handler = PermissionsClick\<rparr>]))"
    if "script_free p" for sel
  proof -
    from that have "list_all (\<lambda>b. foreign (b_handler b)) (bindings p)"
      by (simp add: script_free_def)
    then have "list_all (\<lambda>b. foreign (b_handler b)) (filter K (bindings p))" for K
      by (simp add: list_all_iff)
    from foreign_only [OF this] show ?thesis
      unfolding fired_def ready_bindings by simp
  qed
  note script = this
  show ?thesis
    unfolding ready_funpow
    using script [of "''#add_user''"] script [of "''.user .delete''"]
      script [of "''.group .delete''"] script [of "''.permissions''"]
    by simp
qed

theorem ready_binds_once_witness:
  "script_free (sample_page\<lparr>bindings :=
      [\<lparr>b_selector = ''#add_user'', b_attachment = Live, b_event = ''click'',
         b_handler = Foreign 0\<rparr>]\<rparr>) \<and>
   filter (\<lambda>h. \<not> foreign h) (fired ''#add_user'' ''click''
     ((ready ^^ Suc (Suc 0)) (sample_page\<lparr>bindings :=
      [\<lparr>b_selector = ''#add_user'', b_attachment = Live, b_event = ''click'',
         b_handler = Foreign 0\<rparr>]\<rparr>))) = [AddUserClick] \<and>
   filter (\<lambda>h. \<not> foreign h) (fired ''.permissions'' ''click''
     ((ready ^^ Suc (Suc 0)) (sample_page\<lparr>bindings :=
      [\<lparr>b_selector = ''#add_user'', b_attachment = Live, b_event = ''click'',
         b_handler = Foreign 0\<rparr>]\<rparr>))) = [PermissionsClick]"
proof -
  let ?p = "sample_page\<lparr>bindings :=
      [\<lparr>b_selector = ''#add_user'', b_attachment = Live, b_event = ''click'',
         b_handler = Foreign 0\<rparr>]\<rparr>"
  have free: "script_free ?p"
    by (simp add: script_free_def)
  with ready_binds_once [of "Suc 0" ?p] show ?thesis
    by blast
qed

section \<open>Requests that fail\<close>

text \<open>
  C8. A request that ends in failure changes no row, no error message and no popover.
  For each operation that sends a request, after the operation and the failure of its
  request the rows are those before the operation, the error region holds what it held
  (nothing, after a form submission, which empties it), and the requests in flight are
  those before.
\<close>

theorem failed_request_changes_nothing:
  "op_users (deliver jq k Failure p) = op_users p \<and>
   errors (deliver jq k Failure p) = errors p \<and>
   qtips (deliver jq k Failure p) = qtips p \<and>
   (let p1 = send_request confirm operation p;
        p2 = deliver jq (length (requests p)) Failure p1
    in op_users p2 = op_users p \<and>
       errors p2 = (case operation of SubmitForm f \<Rightarrow> [] | _ \<Rightarrow> errors p) \<and>
       requests p2 = requests p)"
  by (cases operation)
    (simp_all add: deliver_def Let_def delete_user_click_def delete_group_click_def
      object_permissions_form_submit_def post_def ajaxSubmit_def qtip_destroy_def)

theorem failed_request_changes_nothing_witness:
  "(let p1 = send_request (\<lambda>m. True) (DeleteUser (user_row ''42'' ''bob'')) sample_page;
        p2 = deliver (sample_jquery ''0'') 0 Failure p1
    in length (requests p1) = 1 \<and> op_users p2 = op_users sample_page \<and> errors p2 = [] \<and>
       requests p2 = [])"
  using failed_request_changes_nothing
    [of "sample_jquery ''0''" 0 sample_page "\<lambda>m. True" "DeleteUser (user_row ''42'' ''bob'')"]
  by (simp add: Let_def sample_page_def delete_user_click_def post_def qtip_destroy_def)

end
